theory Spec2Isabelle
  imports Complex_Main
begin

section \<open>The fraud-detector front end (App.jsx)\<close>

text \<open>
  The repository is one React component, \<^verbatim>\<open>App\<close>, in
  \<^verbatim>\<open>src/frontend/fraud-detector-ui/src/App.jsx\<close>. It keeps four state variables
  (\<^verbatim>\<open>address\<close>, \<^verbatim>\<open>result\<close>, \<^verbatim>\<open>loading\<close>, \<^verbatim>\<open>error\<close>), one asynchronous
  handler \<^verbatim>\<open>analyzeAddress\<close>, two pure helpers \<^verbatim>\<open>getRiskColor\<close> and
  \<^verbatim>\<open>getRiskLevel\<close>, and the JSX it returns.

  Conventions of the embedding.
  \<^item> A JavaScript string is a \<open>string\<close>; a character stands for one UTF-16 code unit
    below 256, so \<open>length\<close> is \<^verbatim>\<open>.length\<close>.
  \<^item> A JavaScript number is a real: the finite values, compared and multiplied
    exactly. The rounding of binary64 (of the literal \<^verbatim>\<open>0.8\<close>, of the product
    \<^verbatim>\<open>confidence * 100\<close>) is not modelled.
  \<^item> The parsed body of a response is \<^verbatim>\<open>null\<close> or is typed as the handler reads
    it: the fields of an analysis result on success, an optional \<^verbatim>\<open>error\<close> string
    otherwise.
  \<^item> The state setters and the one \<^verbatim>\<open>fetch\<close> call are events; a run of the handler
    is the list of events it performs, in program order.
\<close>

subsection \<open>Strings\<close>

text \<open>
  \<^verbatim>\<open>String.prototype.trim\<close> removes white space and line terminators from both ends.
  Below code unit 256 these are TAB, LF, VT, FF, CR, SPACE and NO-BREAK SPACE.
\<close>

definition isWhiteSpace :: "char \<Rightarrow> bool" where
  "isWhiteSpace c =
     (c = CHR 0x09 \<or> c = CHR 0x0A \<or> c = CHR 0x0B \<or> c = CHR 0x0C \<or> c = CHR 0x0D
      \<or> c = CHR 0x20 \<or> c = CHR 0xA0)"

definition trim :: "string \<Rightarrow> string" where
  "trim s = rev (dropWhile isWhiteSpace (rev (dropWhile isWhiteSpace s)))"

definition startsWith :: "string \<Rightarrow> string \<Rightarrow> bool" where
  "startsWith s p = (take (length p) s = p)"

subsection \<open>Numbers and their strings\<close>

type_synonym number = real

text \<open>
  A string that comes out of a number. \<open>Chars s\<close> is the string \<open>s\<close>.
  \<open>NumberToString x\<close> is the string that ECMAScript's \<^verbatim>\<open>Number::toString\<close> gives for
  \<open>x\<close> where its digits depend on the binary64 value (a fraction, or a magnitude of
  \<open>2 ^ 53\<close> and more); these digits are not computed here.
\<close>

datatype numstring = Chars string | NumberToString number

definition digit_char :: "nat \<Rightarrow> char" where
  "digit_char d = ''0123456789'' ! (d mod 10)"

fun digits :: "nat \<Rightarrow> string" where
  "digits n = (if n < 10 then [digit_char n] else digits (n div 10) @ [digit_char (n mod 10)])"

declare digits.simps [simp del]

text \<open>
  \<^verbatim>\<open>Number::toString(x)\<close>: for an integer below \<open>2 ^ 53\<close> in magnitude, its decimal
  digits with the sign.
\<close>

definition numberToString :: "number \<Rightarrow> numstring" where
  "numberToString x =
     (if x = of_int \<lfloor>x\<rfloor> \<and> \<bar>x\<bar> < 2 ^ 53
      then Chars ((if x < 0 then ''-'' else '''') @ digits (nat \<lfloor>\<bar>x\<bar>\<rfloor>))
      else NumberToString x)"

text \<open>
  \<^verbatim>\<open>Number.prototype.toFixed(f)\<close> (ECMA-262, 21.1.3.3) at a finite \<open>x\<close>, in its
  steps. \<open>rounded f x\<close> is the integer \<open>n\<close> for which \<open>n / 10 ^ f\<close> is closest to the
  magnitude of \<open>x\<close>, the larger one of two. \<open>padded f m\<close> puts zeros in front of
  the digits \<open>m\<close> until there are \<open>f + 1\<close> of them. \<open>pointed f m\<close> puts a point
  before the last \<open>f\<close> characters.
\<close>

definition rounded :: "nat \<Rightarrow> number \<Rightarrow> nat" where
  "rounded f x = nat \<lfloor>\<bar>x\<bar> * 10 ^ f + 1 / 2\<rfloor>"

definition padded :: "nat \<Rightarrow> string \<Rightarrow> string" where
  "padded f m = (if length m \<le> f then replicate (f + 1 - length m) (CHR ''0'') @ m else m)"

definition pointed :: "nat \<Rightarrow> string \<Rightarrow> string" where
  "pointed f m = take (length m - f) m @ ''.'' @ drop (length m - f) m"

text \<open>
  A magnitude of \<open>10 ^ 21\<close> and more is handed to \<^verbatim>\<open>Number::toString\<close>. Otherwise
  the sign is split off and the digits of the rounded magnitude follow, padded and
  pointed when \<open>f\<close> is not 0.
\<close>

definition toFixed :: "nat \<Rightarrow> number \<Rightarrow> numstring" where
  "toFixed f x =
     (if 10 ^ 21 \<le> \<bar>x\<bar> then numberToString x
      else Chars ((if x < 0 then ''-'' else '''')
             @ (if f \<noteq> 0 then pointed f (padded f (digits (rounded f x)))
                else digits (rounded f x))))"

text \<open>The characters after the first point of a string: its fraction digits.\<close>

definition fraction :: "string \<Rightarrow> string" where
  "fraction s = drop 1 (dropWhile (\<lambda>c. c \<noteq> CHR ''.'') s)"

definition isDigit :: "char \<Rightarrow> bool" where
  "isDigit c = (c \<in> set ''0123456789'')"

subsection \<open>The service's answer\<close>

text \<open>
  The fields the component reads from a parsed success body. \<^verbatim>\<open>features\<close> and
  \<^verbatim>\<open>explanations\<close> may be absent, and so may each key of \<^verbatim>\<open>features\<close>.
\<close>

record analysis_result =
  result_address :: string
  verdict :: string
  confidence :: number
  transaction_count :: number
  features :: "(string \<rightharpoonup> number) option"
  explanations :: "(string \<times> number) list option"

record request =
  url :: string
  http_method :: string
  content_type :: string
  body_address :: string

text \<open>
  What happens to the one request.
  \<^item> \<open>NetworkFailure\<close>: \<^verbatim>\<open>fetch\<close> rejects.
  \<^item> \<open>ParseFailure\<close>: a response arrives and \<^verbatim>\<open>response.json()\<close> rejects.
  \<^item> \<open>Success r\<close>: \<^verbatim>\<open>response.ok\<close> holds and the body parses to the object \<open>r\<close>.
  \<^item> \<open>SuccessNull\<close>: \<^verbatim>\<open>response.ok\<close> holds and the body parses to \<^verbatim>\<open>null\<close>.
  \<^item> \<open>ServiceError e\<close>: \<^verbatim>\<open>response.ok\<close> does not hold and the body parses to a
    value other than \<^verbatim>\<open>null\<close> whose \<^verbatim>\<open>error\<close> field is \<open>e\<close> (\<open>None\<close> when it has
    none).
  \<^item> \<open>ServiceErrorNull\<close>: \<^verbatim>\<open>response.ok\<close> does not hold and the body parses to
    \<^verbatim>\<open>null\<close>.
\<close>

datatype outcome =
  NetworkFailure
  | ParseFailure
  | Success analysis_result
  | SuccessNull
  | ServiceError "string option"
  | ServiceErrorNull

subsection \<open>State and the handler\<close>

record state =
  address :: string
  result :: "analysis_result option"
  loading :: bool
  error :: string

definition initial :: state where
  "initial = \<lparr>address = '''', result = None, loading = False, error = ''''\<rparr>"

datatype event =
  SetAddress string
  | SetResult "analysis_result option"
  | SetLoading bool
  | SetError string
  | Fetch request

fun dispatch :: "state \<Rightarrow> event \<Rightarrow> state" where
  "dispatch s (SetAddress a) = s\<lparr>address := a\<rparr>"
| "dispatch s (SetResult r) = s\<lparr>result := r\<rparr>"
| "dispatch s (SetLoading b) = s\<lparr>loading := b\<rparr>"
| "dispatch s (SetError e) = s\<lparr>error := e\<rparr>"
| "dispatch s (Fetch q) = s"

definition run :: "state \<Rightarrow> event list \<Rightarrow> state" where
  "run s es = foldl dispatch s es"

definition analyze_request :: "string \<Rightarrow> request" where
  "analyze_request a =
     \<lparr>url = ''http://localhost:5001/api/analyze'', http_method = ''POST'',
      content_type = ''application/json'', body_address = trim a\<rparr>"

text \<open>
  \<^verbatim>\<open>data.error || "Failed to analyze address"\<close>: an absent field is
  \<^verbatim>\<open>undefined\<close>, and \<^verbatim>\<open>undefined\<close> and the empty string are both falsy.
\<close>

definition error_or_default :: "string option \<Rightarrow> string" where
  "error_or_default e =
     (case e of
        None \<Rightarrow> ''Failed to analyze address''
      | Some m \<Rightarrow> if m = '''' then ''Failed to analyze address'' else m)"

text \<open>
  The body of \<^verbatim>\<open>try\<close> with its \<^verbatim>\<open>catch\<close>: the events after the request is issued
  and before \<^verbatim>\<open>finally\<close>. On a \<^verbatim>\<open>null\<close> body that is not ok, reading
  \<^verbatim>\<open>data.error\<close> (line 39) throws a TypeError inside \<^verbatim>\<open>try\<close>, so the
  \<^verbatim>\<open>catch\<close> of line 41 runs, as it does when \<^verbatim>\<open>fetch\<close> or \<^verbatim>\<open>response.json()\<close>
  rejects.
\<close>

fun on_outcome :: "outcome \<Rightarrow> event list" where
  "on_outcome NetworkFailure =
     [SetError ''Failed to connect to API. Make sure the backend is running on port 5001.'']"
| "on_outcome ParseFailure =
     [SetError ''Failed to connect to API. Make sure the backend is running on port 5001.'']"
| "on_outcome (Success data) = [SetResult (Some data)]"
| "on_outcome SuccessNull = [SetResult None]"
| "on_outcome (ServiceError e) = [SetError (error_or_default e)]"
| "on_outcome ServiceErrorNull =
     [SetError ''Failed to connect to API. Make sure the backend is running on port 5001.'']"

text \<open>
  \<^verbatim>\<open>analyzeAddress\<close> (lines 10 to 48), run to its end. \<open>fetch\<close> is the environment: the
  outcome of the request the handler issues. \<open>a\<close> is the \<^verbatim>\<open>address\<close> of the state
  the handler closes over.
\<close>

definition analyzeAddress :: "(request \<Rightarrow> outcome) \<Rightarrow> string \<Rightarrow> event list" where
  "analyzeAddress fetch a =
     (if trim a = '''' then [SetError ''Please enter an Ethereum address'']
      else if \<not> startsWith a ''0x'' \<or> length a \<noteq> 42
      then [SetError ''Invalid Ethereum address format'']
      else [SetLoading True, SetError '''', SetResult None]
           @ [Fetch (analyze_request a)]
           @ on_outcome (fetch (analyze_request a))
           @ [SetLoading False])"

text \<open>A click on the button in state \<open>s\<close>: the state when the handler has finished.\<close>

definition submit :: "(request \<Rightarrow> outcome) \<Rightarrow> state \<Rightarrow> state" where
  "submit fetch s = run s (analyzeAddress fetch (address s))"

text \<open>The requests a run issues, and those of a click in state \<open>s\<close>.\<close>

fun requests :: "event list \<Rightarrow> request list" where
  "requests [] = []"
| "requests (Fetch q # es) = q # requests es"
| "requests (e # es) = requests es"

definition issued :: "(request \<Rightarrow> outcome) \<Rightarrow> state \<Rightarrow> request list" where
  "issued fetch s = requests (analyzeAddress fetch (address s))"

subsection \<open>Risk colour and risk level\<close>

definition getRiskColor :: "string \<Rightarrow> string" where
  "getRiskColor v =
     (if v = ''flagged'' then ''#ff4444''
      else if v = ''not flagged'' then ''#44ff44''
      else ''#ffaa44'')"

definition getRiskLevel :: "string \<Rightarrow> number \<Rightarrow> string" where
  "getRiskLevel v c =
     (if v = ''flagged'' then (if c > 8 / 10 then ''High Risk'' else ''Medium Risk'')
      else if v = ''not flagged'' then (if c > 8 / 10 then ''Low Risk'' else ''Medium Risk'')
      else ''Unknown'')"

subsection \<open>The rendered page\<close>

text \<open>
  The value of a JSX expression in child position: \<^verbatim>\<open>undefined\<close>, a number or a
  string. React shows nothing for \<^verbatim>\<open>undefined\<close>, the string itself for a string, and
  for a number the string \<^verbatim>\<open>Number::toString\<close> gives.
\<close>

datatype child = Undefined | Num number | Str numstring

fun shown :: "child \<Rightarrow> numstring" where
  "shown Undefined = Chars ''''"
| "shown (Num x) = numberToString x"
| "shown (Str t) = t"

text \<open>
  The five \<^verbatim>\<open>stat-item\<close> values of lines 141 to 171, each the child the JSX
  expression evaluates to (the three ether amounts are followed by the fixed text
  \<^verbatim>\<open>ETH\<close>).
\<close>

record stat_items =
  sent_transactions :: child
  received_transactions :: child
  total_eth_sent :: child
  total_eth_received :: child
  eth_balance :: child

definition raw :: "(string \<rightharpoonup> number) \<Rightarrow> string \<Rightarrow> child" where
  "raw f k = (case f k of None \<Rightarrow> Undefined | Some x \<Rightarrow> Num x)"

definition fixed4 :: "(string \<rightharpoonup> number) \<Rightarrow> string \<Rightarrow> child" where
  "fixed4 f k = (case f k of None \<Rightarrow> Undefined | Some x \<Rightarrow> Str (toFixed 4 x))"

definition stat_items_of :: "(string \<rightharpoonup> number) \<Rightarrow> stat_items" where
  "stat_items_of f =
     \<lparr>sent_transactions = raw f ''Sent tnx'',
      received_transactions = raw f ''Received Tnx'',
      total_eth_sent = fixed4 f ''total Ether sent'',
      total_eth_received = fixed4 f ''total ether received'',
      eth_balance = fixed4 f ''total ether balance''\<rparr>"

text \<open>
  The \<^verbatim>\<open>results-section\<close> of lines 102 to 194. \<open>feature_stats\<close> is \<open>None\<close> when
  the fragment guarded by \<^verbatim>\<open>result.features &&\<close> is not rendered;
  \<open>explanation_list\<close> is \<open>None\<close> when the \<^verbatim>\<open>explanations\<close> block is not rendered,
  and otherwise holds one (feature, impact text) pair for each \<^verbatim>\<open>li\<close>, in order.
  \<open>confidence_text\<close> is followed by the fixed character \<^verbatim>\<open>%\<close>.
\<close>

record results =
  address_info :: string
  risk_badge_color :: string
  risk_badge :: string
  risk_level :: string
  confidence_text :: numstring
  total_transactions :: child
  feature_stats :: "stat_items option"
  explanation_list :: "(string \<times> numstring) list option"

definition explanation_item :: "string \<times> number \<Rightarrow> string \<times> numstring" where
  "explanation_item = (\<lambda>(feature, impact). (feature, toFixed 4 impact))"

definition results_of :: "analysis_result \<Rightarrow> results" where
  "results_of r =
     \<lparr>address_info = result_address r,
      risk_badge_color = getRiskColor (verdict r),
      risk_badge = (if verdict r = ''flagged'' then ''FLAGGED'' else ''NOT FLAGGED''),
      risk_level = getRiskLevel (verdict r) (confidence r),
      confidence_text = toFixed 1 (confidence r * 100),
      total_transactions = Num (transaction_count r),
      feature_stats =
        (case features r of None \<Rightarrow> None | Some f \<Rightarrow> Some (stat_items_of f)),
      explanation_list =
        (case explanations r of
           None \<Rightarrow> None
         | Some xs \<Rightarrow> if length xs > 0 then Some (map explanation_item xs) else None)\<rparr>"

text \<open>
  What \<^verbatim>\<open>App\<close> returns in state \<open>s\<close>: the input and the button of lines 81 to 96,
  the \<^verbatim>\<open>error-message\<close> of line 100 and the results section.
\<close>

record page =
  input_disabled :: bool
  button_disabled :: bool
  button_label :: string
  error_message :: "string option"
  results_section :: "results option"

definition App :: "state \<Rightarrow> page" where
  "App s =
     \<lparr>input_disabled = loading s,
      button_disabled = (loading s \<or> trim (address s) = ''''),
      button_label = (if loading s then ''Analyzing...'' else ''Analyze Address''),
      error_message = (if error s = '''' then None else Some (error s)),
      results_section = map_option results_of (result s)\<rparr>"

subsection \<open>What the claims say of a rendered value\<close>

text \<open>
  A string has \<open>d\<close> decimals when exactly \<open>d\<close> characters follow its first point and
  all of them are digits.
\<close>

definition decimals :: "nat \<Rightarrow> numstring \<Rightarrow> bool" where
  "decimals d t =
     (case t of
        Chars s \<Rightarrow> length (fraction s) = d \<and> list_all isDigit (fraction s)
      | NumberToString x \<Rightarrow> False)"

text \<open>
  A count is shown as the number itself; an amount is shown through \<^verbatim>\<open>toFixed(4)\<close>,
  which has four decimals below \<open>10 ^ 21\<close>; an absent key shows nothing.
\<close>

definition count_child :: "number option \<Rightarrow> child \<Rightarrow> bool" where
  "count_child v c = (case v of None \<Rightarrow> c = Undefined | Some x \<Rightarrow> c = Num x)"

definition amount_child :: "number option \<Rightarrow> child \<Rightarrow> bool" where
  "amount_child v c =
     (case v of
        None \<Rightarrow> c = Undefined
      | Some x \<Rightarrow> c = Str (toFixed 4 x) \<and> (\<bar>x\<bar> < 10 ^ 21 \<longrightarrow> decimals 4 (toFixed 4 x)))"

definition blank_items :: stat_items where
  "blank_items =
     \<lparr>sent_transactions = Undefined, received_transactions = Undefined,
      total_eth_sent = Undefined, total_eth_received = Undefined, eth_balance = Undefined\<rparr>"

subsection \<open>Sample inputs\<close>

text \<open>An environment that answers every request with the same outcome.\<close>

definition always :: "outcome \<Rightarrow> request \<Rightarrow> outcome" where
  "always out q = out"

definition sample_address :: string where
  "sample_address = ''0x52908400098527886E0F7030069857D2E4169EE7''"

definition sample_result :: analysis_result where
  "sample_result =
     \<lparr>result_address = sample_address, verdict = ''flagged'', confidence = 8 / 10,
      transaction_count = 12,
      features = Some (map_of [(''Sent tnx'', 5), (''total Ether sent'', 3 / 2)]),
      explanations = Some [(''age'', 1234 / 10000), (''balance'', - 5678 / 10000)]\<rparr>"

section \<open>Properties\<close>

subsection \<open>Helper facts\<close>

lemma trim_empty_iff: "trim s = '''' \<longleftrightarrow> (\<forall>c \<in> set s. isWhiteSpace c)"
proof
  assume "trim s = ''''"
  then have all: "\<forall>c \<in> set (dropWhile isWhiteSpace s). isWhiteSpace c"
    by (simp add: trim_def)
  have "dropWhile isWhiteSpace s = []"
  proof (rule ccontr)
    assume "dropWhile isWhiteSpace s \<noteq> []"
    then have "\<not> isWhiteSpace (hd (dropWhile isWhiteSpace s))"
      by (rule hd_dropWhile)
    moreover have "hd (dropWhile isWhiteSpace s) \<in> set (dropWhile isWhiteSpace s)"
      using \<open>dropWhile isWhiteSpace s \<noteq> []\<close> by simp
    ultimately show False
      using all by blast
  qed
  then show "\<forall>c \<in> set s. isWhiteSpace c"
    by simp
next
  assume "\<forall>c \<in> set s. isWhiteSpace c"
  then have none: "dropWhile isWhiteSpace s = []"
    by simp
  show "trim s = ''''"
    unfolding trim_def none by simp
qed

lemma startsWith_trim: "startsWith a ''0x'' \<Longrightarrow> trim a \<noteq> ''''"
proof -
  assume "startsWith a ''0x''"
  then have "take 2 a = ''0x''"
    by (simp add: startsWith_def numeral_2_eq_2)
  then have "CHR ''0'' \<in> set (take 2 a)"
    by simp
  then have "CHR ''0'' \<in> set a"
    by (rule in_set_takeD)
  moreover have "\<not> isWhiteSpace (CHR ''0'')"
    by (simp add: isWhiteSpace_def)
  ultimately show ?thesis
    by (auto simp: trim_empty_iff)
qed

lemma digit_char_isDigit: "isDigit (digit_char d)"
  unfolding digit_char_def isDigit_def
  by (rule nth_mem) simp

lemma digits_isDigit: "c \<in> set (digits n) \<Longrightarrow> isDigit c"
proof (induction n rule: digits.induct)
  case (1 n)
  then show ?case
    by (subst (asm) (2) digits.simps) (auto simp: digit_char_isDigit split: if_splits)
qed

lemma isDigit_not_point: "isDigit c \<Longrightarrow> c \<noteq> CHR ''.''"
  by (auto simp: isDigit_def)

lemma fraction_point:
  assumes "\<And>c. c \<in> set a \<Longrightarrow> c \<noteq> CHR ''.''"
  shows "fraction (a @ ''.'' @ b) = b"
  using assms by (simp add: fraction_def dropWhile_append2)

lemma padded_isDigit: "c \<in> set (padded f (digits n)) \<Longrightarrow> isDigit c"
proof -
  assume "c \<in> set (padded f (digits n))"
  then have "c = CHR ''0'' \<or> c \<in> set (digits n)"
    by (auto simp: padded_def split: if_splits)
  moreover have "isDigit (CHR ''0'')"
    by (simp add: isDigit_def)
  ultimately show ?thesis
    using digits_isDigit by blast
qed

lemma padded_length: "f < length (padded f m)"
  by (auto simp: padded_def)

lemma toFixed_decimals:
  assumes "0 < f" and "\<bar>x\<bar> < 10 ^ 21"
  shows "decimals f (toFixed f x)"
proof -
  define m where "m = padded f (digits (rounded f x))"
  define s where "s = (if x < 0 then ''-'' else '''')"
  have m_digits: "isDigit c" if "c \<in> set m" for c
    using that padded_isDigit by (simp add: m_def)
  have m_len: "f < length m"
    by (simp add: m_def padded_length)
  have eq: "toFixed f x = Chars ((s @ take (length m - f) m) @ ''.'' @ drop (length m - f) m)"
    using assms by (simp add: toFixed_def pointed_def m_def s_def)
  have "c \<noteq> CHR ''.''" if "c \<in> set (s @ take (length m - f) m)" for c
    using that m_digits isDigit_not_point by (auto simp: s_def dest: in_set_takeD split: if_splits)
  then have "fraction ((s @ take (length m - f) m) @ ''.'' @ drop (length m - f) m)
      = drop (length m - f) m"
    by (rule fraction_point)
  moreover have "length (drop (length m - f) m) = f"
    using m_len by simp
  moreover have "list_all isDigit (drop (length m - f) m)"
    using m_digits by (auto simp: list_all_iff dest: in_set_dropD)
  ultimately show ?thesis
    unfolding eq decimals_def by simp
qed

lemmas evaluate =
  toFixed_def rounded_def padded_def pointed_def numberToString_def digits.simps digit_char_def

lemma run_Nil: "run s [] = s"
  by (simp add: run_def)

lemma run_Cons: "run s (e # es) = run (dispatch s e) es"
  by (simp add: run_def)

lemma run_append: "run s (es @ fs) = run (run s es) fs"
  by (simp add: run_def)

lemma requests_append: "requests (es @ fs) = requests es @ requests fs"
  by (induction es rule: requests.induct) simp_all

lemma requests_on_outcome: "requests (on_outcome out) = []"
  by (cases out) simp_all

lemma loading_on_outcome: "loading (run s (on_outcome out)) = loading s"
  by (cases out) (simp_all add: run_Cons run_Nil)

subsection \<open>Risk level and colour\<close>

text \<open>
  C1. For every verdict and confidence, \<^verbatim>\<open>getRiskLevel\<close> returns "High Risk" for
  flagged above 0.8, "Medium Risk" for flagged at most 0.8, "Low Risk" for not flagged
  above 0.8, "Medium Risk" for not flagged at most 0.8, and "Unknown" for any other
  verdict; the boundary 0.8 itself gives "Medium Risk" for both known verdicts.
\<close>

theorem getRiskLevel_table:
  "(8 / 10 < c \<longrightarrow> getRiskLevel ''flagged'' c = ''High Risk'')
   \<and> (c \<le> 8 / 10 \<longrightarrow> getRiskLevel ''flagged'' c = ''Medium Risk'')
   \<and> (8 / 10 < c \<longrightarrow> getRiskLevel ''not flagged'' c = ''Low Risk'')
   \<and> (c \<le> 8 / 10 \<longrightarrow> getRiskLevel ''not flagged'' c = ''Medium Risk'')
   \<and> (v \<noteq> ''flagged'' \<and> v \<noteq> ''not flagged'' \<longrightarrow> getRiskLevel v c = ''Unknown'')
   \<and> getRiskLevel ''flagged'' (8 / 10) = ''Medium Risk''
   \<and> getRiskLevel ''not flagged'' (8 / 10) = ''Medium Risk''"
  by (simp add: getRiskLevel_def)

theorem getRiskLevel_table_witness:
  "(8 / 10 < (81 / 100 :: real) \<and> getRiskLevel ''flagged'' (81 / 100) = ''High Risk''
      \<and> getRiskLevel ''not flagged'' (81 / 100) = ''Low Risk'')
   \<and> ((1 / 2 :: real) \<le> 8 / 10 \<and> getRiskLevel ''flagged'' (1 / 2) = ''Medium Risk''
      \<and> getRiskLevel ''not flagged'' (1 / 2) = ''Medium Risk'')
   \<and> (''suspicious'' \<noteq> ''flagged'' \<and> ''suspicious'' \<noteq> ''not flagged''
      \<and> getRiskLevel ''suspicious'' (9 / 10) = ''Unknown'')"
  using getRiskLevel_table [of "81 / 100" "''suspicious''"]
    getRiskLevel_table [of "1 / 2" "''suspicious''"]
    getRiskLevel_table [of "9 / 10" "''suspicious''"]
  by simp

text \<open>
  C9. \<^verbatim>\<open>getRiskColor\<close> and \<^verbatim>\<open>getRiskLevel\<close> are total over verdict strings:
  flagged gives the alert colour \<^verbatim>\<open>#ff4444\<close>, not flagged the safe colour
  \<^verbatim>\<open>#44ff44\<close>, and every other verdict the warning colour \<^verbatim>\<open>#ffaa44\<close> and the label
  "Unknown".
\<close>

theorem getRiskColor_total:
  "getRiskColor ''flagged'' = ''#ff4444''
   \<and> getRiskColor ''not flagged'' = ''#44ff44''
   \<and> (v \<noteq> ''flagged'' \<and> v \<noteq> ''not flagged''
        \<longrightarrow> getRiskColor v = ''#ffaa44'' \<and> getRiskLevel v c = ''Unknown'')
   \<and> getRiskColor v \<in> {''#ff4444'', ''#44ff44'', ''#ffaa44''}
   \<and> getRiskLevel v c \<in> {''High Risk'', ''Medium Risk'', ''Low Risk'', ''Unknown''}"
  by (simp add: getRiskColor_def getRiskLevel_def)

theorem getRiskColor_total_witness:
  "''pending'' \<noteq> ''flagged'' \<and> ''pending'' \<noteq> ''not flagged''
   \<and> getRiskColor ''pending'' = ''#ffaa44'' \<and> getRiskLevel ''pending'' (9 / 10) = ''Unknown''"
  using getRiskColor_total [of "''pending''" "9 / 10"]
  by simp

text \<open>
  C10. For every result whose verdict is not the string \<^verbatim>\<open>flagged\<close>, the badge reads
  "NOT FLAGGED"; this includes a verdict that is neither known value, where the badge
  has the warning colour.
\<close>

theorem badge_not_flagged:
  "(verdict r \<noteq> ''flagged'' \<longrightarrow> risk_badge (results_of r) = ''NOT FLAGGED'')
   \<and> (verdict r \<noteq> ''flagged'' \<and> verdict r \<noteq> ''not flagged''
        \<longrightarrow> risk_badge (results_of r) = ''NOT FLAGGED''
            \<and> risk_badge_color (results_of r) = ''#ffaa44'')
   \<and> (verdict r = ''flagged'' \<longrightarrow> risk_badge (results_of r) = ''FLAGGED'')"
  by (simp add: results_of_def getRiskColor_def)

theorem badge_not_flagged_witness:
  "verdict (sample_result\<lparr>verdict := ''suspicious''\<rparr>) \<noteq> ''flagged''
   \<and> verdict (sample_result\<lparr>verdict := ''suspicious''\<rparr>) \<noteq> ''not flagged''
   \<and> risk_badge (results_of (sample_result\<lparr>verdict := ''suspicious''\<rparr>)) = ''NOT FLAGGED''
   \<and> risk_badge_color (results_of (sample_result\<lparr>verdict := ''suspicious''\<rparr>)) = ''#ffaa44''
   \<and> verdict sample_result = ''flagged''
   \<and> risk_badge (results_of sample_result) = ''FLAGGED''"
  using badge_not_flagged [of "sample_result\<lparr>verdict := ''suspicious''\<rparr>"]
    badge_not_flagged [of sample_result]
  by (simp add: sample_result_def)

subsection \<open>Local validation\<close>

text \<open>
  What the handler does when one of its own two tests fails, the second on the address
  as typed: the run is the one \<^verbatim>\<open>setError\<close> of the test that failed, the empty test
  first; no request is issued and \<^verbatim>\<open>loading\<close> is not touched.
\<close>

lemma rejected_input:
  assumes "trim (address s) = '''' \<or> \<not> startsWith (address s) ''0x'' \<or> length (address s) \<noteq> 42"
  shows "requests (analyzeAddress fetch (address s)) = []
    \<and> error (submit fetch s) =
        (if trim (address s) = '''' then ''Please enter an Ethereum address''
         else ''Invalid Ethereum address format'')
    \<and> error_message (App (submit fetch s)) = Some (error (submit fetch s))
    \<and> loading (submit fetch s) = loading s"
  using assms
  by (auto simp: analyzeAddress_def submit_def App_def run_Cons run_Nil)

text \<open>
  C8. An input that is malformed once trimmed must end with the validator's message
  and no request. The handler tests the format on the address as typed, so it does not:
  a 42-character input whose last character is a space trims to 41 characters, passes
  line 16, and is sent. The request is issued, the error is cleared, and what the state
  holds afterwards is the outcome of the request, not "Invalid Ethereum address format".
\<close>

theorem malformed_trimmed_input_is_sent:
  "trim ''0x52908400098527886E0F7030069857D2E4169EE '' \<noteq> ''''
   \<and> length (trim ''0x52908400098527886E0F7030069857D2E4169EE '') \<noteq> 42
   \<and> issued (always NetworkFailure)
        (initial\<lparr>address := ''0x52908400098527886E0F7030069857D2E4169EE ''\<rparr>)
       = [analyze_request ''0x52908400098527886E0F7030069857D2E4169EE '']
   \<and> error (submit (always NetworkFailure)
        (initial\<lparr>address := ''0x52908400098527886E0F7030069857D2E4169EE ''\<rparr>))
       = ''Failed to connect to API. Make sure the backend is running on port 5001.''
   \<and> error (submit (always SuccessNull)
        (initial\<lparr>address := ''0x52908400098527886E0F7030069857D2E4169EE ''\<rparr>))
       = ''''"
  by (simp add: submit_def issued_def analyzeAddress_def initial_def startsWith_def trim_def
      isWhiteSpace_def always_def run_Cons run_Nil)

subsection \<open>The request and its outcome\<close>

text \<open>
  C7. For every submission that reaches the request and every outcome of it (success,
  service error, transport failure), \<^verbatim>\<open>setLoading(false)\<close> is called exactly once, as
  the last event of the run, and the state is not loading afterwards. A submission
  from a state that is not loading never leaves the state loading.
\<close>

theorem loading_cleared_once:
  "(startsWith a ''0x'' \<and> length a = 42 \<longrightarrow>
      count_list (analyzeAddress fetch a) (SetLoading False) = 1
      \<and> last (analyzeAddress fetch a) = SetLoading False
      \<and> requests (analyzeAddress fetch a) = [analyze_request a]
      \<and> \<not> loading (run s (analyzeAddress fetch a)))
   \<and> (\<not> loading s \<longrightarrow> \<not> loading (submit fetch s))"
proof -
  have once: "count_list (on_outcome out) (SetLoading False) = 0" for out
    by (cases out) simp_all
  have sent: "count_list (analyzeAddress fetch a) (SetLoading False) = 1
      \<and> last (analyzeAddress fetch a) = SetLoading False
      \<and> requests (analyzeAddress fetch a) = [analyze_request a]
      \<and> \<not> loading (run s (analyzeAddress fetch a))"
    if "startsWith a ''0x''" "length a = 42" for a s
    using that startsWith_trim [of a]
    by (simp add: analyzeAddress_def once requests_append requests_on_outcome
        run_append run_Cons run_Nil)
  have kept: "\<not> loading (submit fetch s)" if "\<not> loading s"
  proof (cases "startsWith (address s) ''0x'' \<and> length (address s) = 42")
    case True
    then show ?thesis
      using sent [of "address s" s] by (simp add: submit_def)
  next
    case False
    then have "trim (address s) = '''' \<or> \<not> startsWith (address s) ''0x'' \<or> length (address s) \<noteq> 42"
      by blast
    then show ?thesis
      using that
      by (auto simp: analyzeAddress_def submit_def run_Cons run_Nil)
  qed
  show ?thesis
    using sent kept by blast
qed

theorem loading_cleared_once_witness:
  "startsWith sample_address ''0x'' \<and> length sample_address = 42
   \<and> count_list (analyzeAddress (always (Success sample_result)) sample_address) (SetLoading False) = 1
   \<and> last (analyzeAddress (always (ServiceError None)) sample_address) = SetLoading False
   \<and> \<not> loading (run (initial\<lparr>loading := True\<rparr>) (analyzeAddress (always NetworkFailure) sample_address))
   \<and> \<not> loading initial \<and> \<not> loading (submit (always ParseFailure) initial)"
proof -
  have ok: "startsWith sample_address ''0x'' \<and> length sample_address = 42"
    by (simp add: sample_address_def startsWith_def)
  have idle: "\<not> loading initial"
    by (simp add: initial_def)
  show ?thesis
    using ok idle
      loading_cleared_once [of sample_address "always (Success sample_result)" initial]
      loading_cleared_once [of sample_address "always (ServiceError None)" initial]
      loading_cleared_once [of sample_address "always NetworkFailure" "initial\<lparr>loading := True\<rparr>"]
      loading_cleared_once [of sample_address "always ParseFailure" initial]
    by blast
qed




subsection \<open>The presenter\<close>

text \<open>
  C5, as stated, fails for the two counts: with \<^verbatim>\<open>features["Sent tnx"] = 5\<close> the
  child of the "Sent Transactions" item is the number 5, which is shown as \<^verbatim>\<open>5\<close>,
  with no decimals; four decimal digits would read \<^verbatim>\<open>5.0000\<close>.
\<close>

theorem sent_count_counterexample:
  "map_option sent_transactions (feature_stats (results_of sample_result)) = Some (Num 5)
   \<and> shown (Num 5) = Chars ''5''
   \<and> \<not> decimals 4 (shown (Num 5))
   \<and> toFixed 4 5 = Chars ''5.0000''"
  by (simp add: results_of_def stat_items_of_def raw_def sample_result_def evaluate decimals_def
      fraction_def)

text \<open>
  C5, amended. The confidence is rendered as \<^verbatim>\<open>(confidence * 100).toFixed(1)\<close>, which
  below \<open>10 ^ 21\<close> has exactly one decimal digit. When \<^verbatim>\<open>features\<close> is absent the
  five feature items are not rendered. When it is present, each of the three ether
  amounts is rendered through \<^verbatim>\<open>toFixed(4)\<close>, with exactly four decimal digits below
  \<open>10 ^ 21\<close>, and the sent and received counts are rendered as the numbers they are;
  a key that is absent renders nothing, and nothing fails.
\<close>

theorem presenter_formats:
  "confidence_text (results_of r) = toFixed 1 (confidence r * 100)
   \<and> (\<bar>confidence r * 100\<bar> < 10 ^ 21 \<longrightarrow> decimals 1 (confidence_text (results_of r)))
   \<and> (features r = None \<longrightarrow> feature_stats (results_of r) = None)
   \<and> (features r = Some f \<longrightarrow>
        (\<exists>items. feature_stats (results_of r) = Some items
          \<and> count_child (f ''Sent tnx'') (sent_transactions items)
          \<and> count_child (f ''Received Tnx'') (received_transactions items)
          \<and> amount_child (f ''total Ether sent'') (total_eth_sent items)
          \<and> amount_child (f ''total ether received'') (total_eth_received items)
          \<and> amount_child (f ''total ether balance'') (eth_balance items)))"
proof -
  have conf: "decimals 1 (confidence_text (results_of r))" if "\<bar>confidence r * 100\<bar> < 10 ^ 21"
    using toFixed_decimals [of 1 "confidence r * 100"] that
    by (simp add: results_of_def)
  have count: "count_child (f k) (raw f k)" for k
    by (simp add: count_child_def raw_def split: option.split)
  have amount: "amount_child (f k) (fixed4 f k)" for k
    by (simp add: amount_child_def fixed4_def toFixed_decimals split: option.split)
  have items: "feature_stats (results_of r) = Some (stat_items_of f)" if "features r = Some f"
    using that by (simp add: results_of_def)
  have stats: "count_child (f ''Sent tnx'') (sent_transactions (stat_items_of f))
      \<and> count_child (f ''Received Tnx'') (received_transactions (stat_items_of f))
      \<and> amount_child (f ''total Ether sent'') (total_eth_sent (stat_items_of f))
      \<and> amount_child (f ''total ether received'') (total_eth_received (stat_items_of f))
      \<and> amount_child (f ''total ether balance'') (eth_balance (stat_items_of f))"
    using count amount by (simp add: stat_items_of_def)
  have absent: "feature_stats (results_of r) = None" if "features r = None"
    using that by (simp add: results_of_def)
  have text1: "confidence_text (results_of r) = toFixed 1 (confidence r * 100)"
    by (simp add: results_of_def)
  show ?thesis
    using conf items stats absent text1 by blast
qed

theorem presenter_formats_witness:
  "\<bar>confidence sample_result * 100\<bar> < 10 ^ 21
   \<and> confidence_text (results_of sample_result) = Chars ''80.0''
   \<and> decimals 1 (confidence_text (results_of sample_result))
   \<and> features sample_result = Some (map_of [(''Sent tnx'', 5), (''total Ether sent'', 3 / 2)])
   \<and> map_option total_eth_sent (feature_stats (results_of sample_result))
       = Some (Str (Chars ''1.5000''))
   \<and> map_option eth_balance (feature_stats (results_of sample_result)) = Some Undefined
   \<and> features (sample_result\<lparr>features := None\<rparr>) = None
   \<and> feature_stats (results_of (sample_result\<lparr>features := None\<rparr>)) = None"
proof -
  have small: "\<bar>confidence sample_result * 100\<bar> < 10 ^ 21"
    by (simp add: sample_result_def)
  have present: "features sample_result
      = Some (map_of [(''Sent tnx'', 5), (''total Ether sent'', 3 / 2)])"
    by (simp add: sample_result_def)
  have one: "toFixed 1 (confidence sample_result * 100) = Chars ''80.0''"
    by (simp add: sample_result_def evaluate)
  have four: "toFixed 4 (3 / 2) = Chars ''1.5000''"
    by (simp add: evaluate)
  show ?thesis
    using small present one four
      presenter_formats [of sample_result
        "map_of [(''Sent tnx'', 5), (''total Ether sent'', 3 / 2)]"]
      presenter_formats [of "sample_result\<lparr>features := None\<rparr>"]
    by (auto simp: amount_child_def)
qed

text \<open>
  C6, as stated, fails for a \<^verbatim>\<open>features\<close> object with no keys: the guard of line 139
  tests only that the object is there, so the five feature items are rendered, each with
  nothing as its value.
\<close>

theorem empty_features_counterexample:
  "feature_stats (results_of (sample_result\<lparr>features := Some (map_of [])\<rparr>)) = Some blank_items
   \<and> feature_stats (results_of (sample_result\<lparr>features := Some (map_of [])\<rparr>)) \<noteq> None"
  by (simp add: results_of_def stat_items_of_def raw_def fixed4_def blank_items_def)

text \<open>
  C6, amended. The feature items are omitted exactly when \<^verbatim>\<open>features\<close> is absent; a
  \<^verbatim>\<open>features\<close> object without keys is rendered as five items with nothing as value.
  The explanations block is omitted when \<^verbatim>\<open>explanations\<close> is absent or empty;
  otherwise it has one entry for each explanation, in the order of the service, with
  the feature name and the impact through \<^verbatim>\<open>toFixed(4)\<close>, which has four decimal
  digits below \<open>10 ^ 21\<close>.
\<close>

theorem sections_rendered:
  "(feature_stats (results_of r) = None \<longleftrightarrow> features r = None)
   \<and> (features r = Some (map_of []) \<longrightarrow> feature_stats (results_of r) = Some blank_items)
   \<and> (explanations r = None \<or> explanations r = Some [] \<longrightarrow>
        explanation_list (results_of r) = None)
   \<and> (explanations r = Some xs \<and> xs \<noteq> [] \<longrightarrow>
        (\<exists>items. explanation_list (results_of r) = Some items
          \<and> length items = length xs
          \<and> (\<forall>i < length xs.
                fst (items ! i) = fst (xs ! i)
                \<and> snd (items ! i) = toFixed 4 (snd (xs ! i))
                \<and> (\<bar>snd (xs ! i)\<bar> < 10 ^ 21 \<longrightarrow> decimals 4 (snd (items ! i))))))"
proof -
  have stats: "feature_stats (results_of r) = None \<longleftrightarrow> features r = None"
    by (simp add: results_of_def split: option.split)
  have blank: "feature_stats (results_of r) = Some blank_items" if "features r = Some (map_of [])"
    using that
    by (simp add: results_of_def stat_items_of_def raw_def fixed4_def blank_items_def)
  have omitted: "explanation_list (results_of r) = None"
    if "explanations r = None \<or> explanations r = Some []"
    using that by (auto simp: results_of_def)
  have item: "fst (map explanation_item xs ! i) = fst (xs ! i)
      \<and> snd (map explanation_item xs ! i) = toFixed 4 (snd (xs ! i))
      \<and> (\<bar>snd (xs ! i)\<bar> < 10 ^ 21 \<longrightarrow> decimals 4 (snd (map explanation_item xs ! i)))"
    if "i < length xs" for i
    using that
    by (simp add: explanation_item_def case_prod_beta toFixed_decimals)
  have listed: "explanation_list (results_of r) = Some (map explanation_item xs)"
    if "explanations r = Some xs" "xs \<noteq> []"
    using that by (simp add: results_of_def)
  have shown_all: "\<exists>items. explanation_list (results_of r) = Some items
      \<and> length items = length xs
      \<and> (\<forall>i < length xs.
            fst (items ! i) = fst (xs ! i)
            \<and> snd (items ! i) = toFixed 4 (snd (xs ! i))
            \<and> (\<bar>snd (xs ! i)\<bar> < 10 ^ 21 \<longrightarrow> decimals 4 (snd (items ! i))))"
    if "explanations r = Some xs" "xs \<noteq> []"
  proof -
    have "\<forall>i < length xs.
        fst (map explanation_item xs ! i) = fst (xs ! i)
        \<and> snd (map explanation_item xs ! i) = toFixed 4 (snd (xs ! i))
        \<and> (\<bar>snd (xs ! i)\<bar> < 10 ^ 21 \<longrightarrow> decimals 4 (snd (map explanation_item xs ! i)))"
      using item by blast
    then show ?thesis
      using listed [OF that] length_map [of explanation_item xs] by blast
  qed
  show ?thesis
    using stats blank omitted shown_all by blast
qed

theorem sections_rendered_witness:
  "explanations sample_result = Some [(''age'', 1234 / 10000), (''balance'', - 5678 / 10000)]
   \<and> explanation_list (results_of sample_result)
       = Some [(''age'', Chars ''0.1234''), (''balance'', Chars ''-0.5678'')]
   \<and> explanations (sample_result\<lparr>explanations := Some []\<rparr>) = Some []
   \<and> explanation_list (results_of (sample_result\<lparr>explanations := Some []\<rparr>)) = None
   \<and> features (sample_result\<lparr>features := Some (map_of [])\<rparr>) = Some (map_of [])
   \<and> feature_stats (results_of (sample_result\<lparr>features := Some (map_of [])\<rparr>))
       = Some blank_items"
proof -
  have given: "explanations sample_result
      = Some [(''age'', 1234 / 10000), (''balance'', - 5678 / 10000)]"
    by (simp add: sample_result_def)
  have age: "toFixed 4 (1234 / 10000) = Chars ''0.1234''"
    by (simp add: evaluate)
  have balance: "toFixed 4 (- 5678 / 10000) = Chars ''-0.5678''"
    by (simp add: evaluate)
  have listed: "explanation_list (results_of sample_result)
      = Some [(''age'', Chars ''0.1234''), (''balance'', Chars ''-0.5678'')]"
    using sections_rendered [of sample_result
        "[(''age'', 1234 / 10000), (''balance'', - 5678 / 10000)]"] given age balance
    by (simp add: results_of_def explanation_item_def)
  show ?thesis
    using given listed
      sections_rendered [of "sample_result\<lparr>explanations := Some []\<rparr>"]
      sections_rendered [of "sample_result\<lparr>features := Some (map_of [])\<rparr>"]
    by simp
qed

subsection \<open>Where the handler departs from its own trimming\<close>

text \<open>
  C2. The handler trims the address for the empty check (line 11) and for the request
  body (line 31), but line 16 tests the address as typed. So an address that is well
  formed once trimmed is rejected when typed with a leading space, and a 42-character
  input whose last character is a space passes the check and is sent trimmed, as a
  41-character address.
\<close>

theorem format_check_reads_untrimmed_address:
  "trim '' 0x52908400098527886E0F7030069857D2E4169EE7'' = sample_address
   \<and> startsWith (trim '' 0x52908400098527886E0F7030069857D2E4169EE7'') ''0x''
   \<and> length (trim '' 0x52908400098527886E0F7030069857D2E4169EE7'') = 42
   \<and> error (submit (always (Success sample_result))
        (initial\<lparr>address := '' 0x52908400098527886E0F7030069857D2E4169EE7''\<rparr>))
       = ''Invalid Ethereum address format''
   \<and> issued (always (Success sample_result))
        (initial\<lparr>address := '' 0x52908400098527886E0F7030069857D2E4169EE7''\<rparr>) = []
   \<and> length (trim ''0x52908400098527886E0F7030069857D2E4169EE '') = 41
   \<and> map body_address (issued (always (Success sample_result))
        (initial\<lparr>address := ''0x52908400098527886E0F7030069857D2E4169EE ''\<rparr>))
       = [''0x52908400098527886E0F7030069857D2E4169EE'']
   \<and> result (submit (always (Success sample_result))
        (initial\<lparr>address := ''0x52908400098527886E0F7030069857D2E4169EE ''\<rparr>))
       = Some sample_result"
  by (simp add: submit_def issued_def analyzeAddress_def analyze_request_def initial_def
      sample_address_def startsWith_def trim_def isWhiteSpace_def always_def run_Cons run_Nil)

text \<open>
  The path that reaches the request does clear the previous answer: when the request is
  issued the state is loading, with no error and no result, whatever it was before.
\<close>

lemma request_issued_in_clean_state:
  assumes "startsWith a ''0x''" and "length a = 42"
  shows "\<exists>es. analyzeAddress fetch a
           = [SetLoading True, SetError '''', SetResult None, Fetch (analyze_request a)] @ es"
    and "run s [SetLoading True, SetError '''', SetResult None]
           = s\<lparr>loading := True, error := '''', result := None\<rparr>"
proof -
  have "trim a \<noteq> ''''"
    using assms(1) by (rule startsWith_trim)
  then show "\<exists>es. analyzeAddress fetch a
      = [SetLoading True, SetError '''', SetResult None, Fetch (analyze_request a)] @ es"
    using assms by (simp add: analyzeAddress_def)
  show "run s [SetLoading True, SetError '''', SetResult None]
      = s\<lparr>loading := True, error := '''', result := None\<rparr>"
    by (simp add: run_Cons run_Nil)
qed

text \<open>
  C3. The two early returns of lines 11 to 19 set the error and leave \<^verbatim>\<open>result\<close> as
  it was, while the path of lines 21 to 23 clears both. After a successful analysis, a
  click with a malformed address shows the new error above the previous result.
\<close>

theorem rejected_input_keeps_stale_result:
  "error (submit (always NetworkFailure)
       \<lparr>address = ''0x123'', result = Some sample_result, loading = False, error = ''''\<rparr>)
     = ''Invalid Ethereum address format''
   \<and> result (submit (always NetworkFailure)
       \<lparr>address = ''0x123'', result = Some sample_result, loading = False, error = ''''\<rparr>)
     = Some sample_result
   \<and> error_message (App (submit (always NetworkFailure)
       \<lparr>address = ''0x123'', result = Some sample_result, loading = False, error = ''''\<rparr>))
     = Some ''Invalid Ethereum address format''
   \<and> results_section (App (submit (always NetworkFailure)
       \<lparr>address = ''0x123'', result = Some sample_result, loading = False, error = ''''\<rparr>))
     = Some (results_of sample_result)"
  by (simp add: submit_def analyzeAddress_def App_def startsWith_def trim_def isWhiteSpace_def
      run_Cons run_Nil)

end
